theory Spec2Isabelle
  imports Main "HOL-Library.AList" "HOL-Library.Sublist"
begin

section \<open>Python values used by the migration tool\<close>

text \<open>
  Strings are byte lists; \<open>str.lower\<close> is modelled on the ASCII letters, which covers
  every type name and default expression the tool compares against.
\<close>

definition ascii_uppercase :: string where
  "ascii_uppercase = ''ABCDEFGHIJKLMNOPQRSTUVWXYZ''"

definition ascii_lowercase :: string where
  "ascii_lowercase = ''abcdefghijklmnopqrstuvwxyz''"

definition lower_char :: "char \<Rightarrow> char" where
  "lower_char c =
     (case map_of (zip ascii_uppercase ascii_lowercase) c of None \<Rightarrow> c | Some l \<Rightarrow> l)"

definition lower :: "string \<Rightarrow> string" where
  "lower s = map lower_char s"

text \<open>\<open>s.strip(chars)\<close>: every leading and every trailing character of the set goes.\<close>

definition strip_chars :: "string \<Rightarrow> string \<Rightarrow> string" where
  "strip_chars chars s =
     rev (dropWhile (\<lambda>c. c \<in> set chars) (rev (dropWhile (\<lambda>c. c \<in> set chars) s)))"

text \<open>\<open>str(n)\<close> of an integer, as an f-string renders it.\<close>

definition digit_char :: "nat \<Rightarrow> char" where
  "digit_char d = ''0123456789'' ! d"

function str_nat :: "nat \<Rightarrow> string" where
  "str_nat n = (if n < 10 then [digit_char n] else str_nat (n div 10) @ [digit_char (n mod 10)])"
  by pat_completeness auto
termination
  by (relation "measure id") auto

declare str_nat.simps [simp del]

definition str_int :: "int \<Rightarrow> string" where
  "str_int i = (if i < 0 then CHR ''-'' # str_nat (nat (- i)) else str_nat (nat i))"

text \<open>The logger: records are appended to a log that is passed along.\<close>

datatype log_level = DEBUG | INFO | WARNING | ERROR

type_synonym log = "(log_level \<times> string) list"

section \<open>The metadata model (dictionaries of the extractor)\<close>

text \<open>
  A Python dict is an association list in insertion order; \<open>d[k] = v\<close> is
  \<open>AList.update k v d\<close> (replace in place, or append). The extractor's column dicts
  have no \<open>is_primary_key\<close> key, hence the option.
\<close>

record column =
  col_name :: string
  col_data_type :: string
  col_max_length :: "int option"
  col_precision :: "int option"
  col_scale :: "int option"
  col_is_nullable :: bool
  col_default_value :: "string option"
  col_ordinal_position :: int
  col_is_primary_key :: "bool option"

record table_info =
  tbl_schema :: string
  tbl_name :: string
  tbl_columns :: "column list"

record view_info =
  view_schema :: string
  view_name :: string
  view_definition :: string

record index_column =
  ic_name :: string
  ic_ordinal :: int
  ic_descending :: bool

record index_info =
  idx_name :: string
  idx_table :: string
  idx_type :: string
  idx_is_unique :: bool
  idx_is_primary_key :: bool
  idx_columns :: "index_column list"

record 'c metadata =
  md_tables :: "(string \<times> table_info) list"
  md_views :: "(string \<times> view_info) list"
  md_indexes :: "(string \<times> index_info) list"
  md_constraints :: "(string \<times> 'c) list"

record converted_column =
  cc_name :: string
  cc_data_type :: string
  cc_is_nullable :: bool
  cc_default_value :: "string option"
  cc_ordinal_position :: int

record converted_table =
  ct_schema :: string
  ct_name :: string
  ct_columns :: "converted_column list"

record converted_index =
  ci_name :: string
  ci_table :: string
  ci_is_unique :: bool
  ci_columns :: "index_column list"

record 'c converted_schema =
  cs_tables :: "(string \<times> converted_table) list"
  cs_views :: "(string \<times> view_info) list"
  cs_indexes :: "(string \<times> converted_index) list"
  cs_constraints :: "(string \<times> 'c) list"

section \<open>SchemaConverter\<close>

definition load_data_type_mapping :: "(string \<times> string) list" where
  "load_data_type_mapping =
    [(''int'', ''INTEGER''),
     (''bigint'', ''BIGINT''),
     (''smallint'', ''SMALLINT''),
     (''tinyint'', ''SMALLINT''),
     (''bit'', ''BOOLEAN''),
     (''decimal'', ''DECIMAL''),
     (''numeric'', ''NUMERIC''),
     (''money'', ''DECIMAL(15,2)''),
     (''smallmoney'', ''DECIMAL(10,4)''),
     (''float'', ''DOUBLE PRECISION''),
     (''real'', ''REAL''),
     (''datetime'', ''TIMESTAMP''),
     (''datetime2'', ''TIMESTAMP''),
     (''smalldatetime'', ''TIMESTAMP''),
     (''date'', ''DATE''),
     (''time'', ''TIME''),
     (''datetimeoffset'', ''TIMESTAMP WITH TIME ZONE''),
     (''char'', ''CHAR''),
     (''varchar'', ''VARCHAR''),
     (''nchar'', ''CHAR''),
     (''nvarchar'', ''VARCHAR''),
     (''text'', ''TEXT''),
     (''ntext'', ''TEXT''),
     (''binary'', ''BYTEA''),
     (''varbinary'', ''BYTEA''),
     (''image'', ''BYTEA''),
     (''uniqueidentifier'', ''UUID''),
     (''xml'', ''XML'')]"

definition default_conversions :: "(string \<times> string) list" where
  "default_conversions =
    [(''getdate()'', ''CURRENT_TIMESTAMP''),
     (''getutcdate()'', ''CURRENT_TIMESTAMP''),
     (''newid()'', ''gen_random_uuid()''),
     (''user_name()'', ''CURRENT_USER''),
     (''system_user'', ''CURRENT_USER'')]"

text \<open>The loop over \<open>conversions.items()\<close>: the first key equal to the lowered value wins.\<close>

fun first_conversion :: "(string \<times> string) list \<Rightarrow> string \<Rightarrow> string" where
  "first_conversion [] default_value = default_value"
| "first_conversion ((sql_func, pg_func) # rest) default_value =
     (if lower default_value = sql_func then pg_func
      else first_conversion rest default_value)"

definition convert_default_value :: "string option \<Rightarrow> string option" where
  "convert_default_value default_value =
     (case default_value of
        None \<Rightarrow> None
      | Some d \<Rightarrow>
          if d = [] then None
          else Some (first_conversion default_conversions (strip_chars ''()'' d)))"

definition char_types :: "string list" where
  "char_types = [''varchar'', ''nvarchar'', ''char'', ''nchar'']"

definition numeric_types :: "string list" where
  "numeric_types = [''decimal'', ''numeric'']"

text \<open>
  \<open>_convert_column\<close>, statement by statement: the type lookup with its fallback and
  warning, the length suffix, the precision and scale suffix, the default value.
\<close>

definition map_data_type :: "log \<Rightarrow> string \<Rightarrow> string \<times> log" where
  "map_data_type lg sql_server_type =
     (case map_of load_data_type_mapping sql_server_type of
        Some t \<Rightarrow> (t, lg)
      | None \<Rightarrow>
          (''TEXT'',
           lg @ [(WARNING, ''Unknown data type: '' @ sql_server_type @ '', using TEXT'')]))"

definition apply_length :: "column \<Rightarrow> string \<Rightarrow> string \<Rightarrow> string" where
  "apply_length c sql_server_type pg_type =
     (case col_max_length c of
        None \<Rightarrow> pg_type
      | Some n \<Rightarrow>
          if n \<noteq> 0 \<and> sql_server_type \<in> set char_types
          then (if n = - 1 then ''TEXT'' else pg_type @ ''('' @ str_int n @ '')'')
          else pg_type)"

definition apply_precision :: "column \<Rightarrow> string \<Rightarrow> string \<Rightarrow> string" where
  "apply_precision c sql_server_type pg_type =
     (case col_precision c of
        None \<Rightarrow> pg_type
      | Some p \<Rightarrow>
          if p \<noteq> 0 \<and> sql_server_type \<in> set numeric_types
          then (case col_scale c of
                  None \<Rightarrow> pg_type @ ''('' @ str_int p @ '')''
                | Some s \<Rightarrow>
                    if s \<noteq> 0 then pg_type @ ''('' @ str_int p @ '','' @ str_int s @ '')''
                    else pg_type @ ''('' @ str_int p @ '')'')
          else pg_type)"

definition convert_column :: "log \<Rightarrow> column \<Rightarrow> converted_column \<times> log" where
  "convert_column lg c =
     (let sql_server_type = lower (col_data_type c);
          (pg_type, lg') = map_data_type lg sql_server_type;
          pg_type = apply_length c sql_server_type pg_type;
          pg_type = apply_precision c sql_server_type pg_type;
          default_value = convert_default_value (col_default_value c)
      in (\<lparr>cc_name = col_name c,
           cc_data_type = pg_type,
           cc_is_nullable = col_is_nullable c,
           cc_default_value = default_value,
           cc_ordinal_position = col_ordinal_position c\<rparr>, lg'))"

text \<open>\<open>_convert_tables\<close>: the inner loop appends to the table's column list.\<close>

fun convert_columns ::
  "log \<Rightarrow> column list \<Rightarrow> converted_column list \<Rightarrow> converted_column list \<times> log" where
  "convert_columns lg [] acc = (acc, lg)"
| "convert_columns lg (c # cs) acc =
     (let (converted_column, lg') = convert_column lg c
      in convert_columns lg' cs (acc @ [converted_column]))"

fun convert_tables_loop ::
  "log \<Rightarrow> (string \<times> table_info) list \<Rightarrow> (string \<times> converted_table) list
     \<Rightarrow> (string \<times> converted_table) list \<times> log" where
  "convert_tables_loop lg [] converted_tables = (converted_tables, lg)"
| "convert_tables_loop lg ((table_key, table_info) # rest) converted_tables =
     (let (cols, lg') = convert_columns lg (tbl_columns table_info) [];
          converted_table =
            \<lparr>ct_schema = tbl_schema table_info, ct_name = tbl_name table_info,
             ct_columns = cols\<rparr>
      in convert_tables_loop lg' rest (AList.update table_key converted_table converted_tables))"

definition convert_tables ::
  "log \<Rightarrow> (string \<times> table_info) list \<Rightarrow> (string \<times> converted_table) list \<times> log" where
  "convert_tables lg tables = convert_tables_loop lg tables []"

text \<open>
  \<open>_convert_tsql_to_pgsql\<close> folds \<open>re.sub(pattern, replacement, result, flags=re.IGNORECASE)\<close>
  over its rule list. The regular-expression engine is the library's; it is the
  parameter \<open>re_sub\<close>, and the five rules are named after what they rewrite.
\<close>

datatype rewrite_rule = BracketIdentifier | IsNull | Len | DatePart | GetDate

definition tsql_conversions :: "rewrite_rule list" where
  "tsql_conversions = [BracketIdentifier, IsNull, Len, DatePart, GetDate]"

definition convert_tsql_to_pgsql :: "(rewrite_rule \<Rightarrow> string \<Rightarrow> string) \<Rightarrow> string \<Rightarrow> string" where
  "convert_tsql_to_pgsql re_sub tsql = fold re_sub tsql_conversions tsql"

fun convert_views_loop ::
  "(rewrite_rule \<Rightarrow> string \<Rightarrow> string) \<Rightarrow> (string \<times> view_info) list
     \<Rightarrow> (string \<times> view_info) list \<Rightarrow> (string \<times> view_info) list" where
  "convert_views_loop re_sub [] converted_views = converted_views"
| "convert_views_loop re_sub ((view_key, v) # rest) converted_views =
     convert_views_loop re_sub rest
       (AList.update view_key
          \<lparr>view_schema = view_schema v, view_name = view_name v,
           view_definition = convert_tsql_to_pgsql re_sub (view_definition v)\<rparr>
          converted_views)"

definition convert_views ::
  "(rewrite_rule \<Rightarrow> string \<Rightarrow> string) \<Rightarrow> (string \<times> view_info) list
     \<Rightarrow> (string \<times> view_info) list" where
  "convert_views re_sub views = convert_views_loop re_sub views []"

text \<open>\<open>_convert_indexes\<close>: \<open>continue\<close> on a primary-key index, otherwise an entry is stored.\<close>

definition converted_index_of :: "index_info \<Rightarrow> converted_index" where
  "converted_index_of index_info =
     \<lparr>ci_name = idx_name index_info, ci_table = idx_table index_info,
      ci_is_unique = idx_is_unique index_info, ci_columns = idx_columns index_info\<rparr>"

fun convert_indexes_loop ::
  "(string \<times> index_info) list \<Rightarrow> (string \<times> converted_index) list
     \<Rightarrow> (string \<times> converted_index) list" where
  "convert_indexes_loop [] converted_indexes = converted_indexes"
| "convert_indexes_loop ((index_key, index_info) # rest) converted_indexes =
     (if idx_is_primary_key index_info then convert_indexes_loop rest converted_indexes
      else convert_indexes_loop rest
             (AList.update index_key (converted_index_of index_info) converted_indexes))"

definition convert_indexes ::
  "(string \<times> index_info) list \<Rightarrow> (string \<times> converted_index) list" where
  "convert_indexes indexes = convert_indexes_loop indexes []"

definition convert_constraints :: "(string \<times> 'c) list \<Rightarrow> (string \<times> 'c) list" where
  "convert_constraints constraints = []"

definition convert ::
  "(rewrite_rule \<Rightarrow> string \<Rightarrow> string) \<Rightarrow> log \<Rightarrow> 'c metadata \<Rightarrow> 'c converted_schema \<times> log" where
  "convert re_sub lg metadata =
     (let (tables, lg') = convert_tables lg (md_tables metadata)
      in (\<lparr>cs_tables = tables,
           cs_views = convert_views re_sub (md_views metadata),
           cs_indexes = convert_indexes (md_indexes metadata),
           cs_constraints = convert_constraints (md_constraints metadata)\<rparr>, lg'))"

text \<open>
  The type string the specification gives for a decimal or numeric column with a
  precision: the scale segment is there whenever a scale is present, zero included.
\<close>

definition spec_numeric_type :: "string \<Rightarrow> int \<Rightarrow> int option \<Rightarrow> string" where
  "spec_numeric_type mapped p scale =
     mapped @ ''('' @ str_int p
       @ (case scale of None \<Rightarrow> [] | Some s \<Rightarrow> '','' @ str_int s) @ '')''"

section \<open>PerformanceAnalyzer\<close>

datatype py_error =
    TypeError | KeyError | AttributeError | UnicodeDecodeError
  | ExtractionError string | LoadError string

text \<open>A recommendation dict; only the data-type rule stores a \<open>column\<close> key.\<close>

record recommendation =
  rec_type :: string
  rec_table :: string
  rec_column :: "string option"
  rec_severity :: string
  rec_description :: string
  rec_recommendation :: string

record report =
  rep_indexing :: "recommendation list"
  rep_partitioning :: "recommendation list"
  rep_data_types :: "recommendation list"
  rep_constraints :: "recommendation list"

text \<open>\<open>col.get('is_primary_key', False)\<close> inside \<open>any(...)\<close>.\<close>

definition has_pk :: "column list \<Rightarrow> bool" where
  "has_pk cols = list_ex (\<lambda>col. case col_is_primary_key col of None \<Rightarrow> False | Some b \<Rightarrow> b) cols"

fun analyze_indexing_loop ::
  "(string \<times> table_info) list \<Rightarrow> recommendation list \<Rightarrow> recommendation list" where
  "analyze_indexing_loop [] recommendations = recommendations"
| "analyze_indexing_loop ((table_key, table_info) # rest) recommendations =
     (if \<not> has_pk (tbl_columns table_info)
      then analyze_indexing_loop rest
             (recommendations @
              [\<lparr>rec_type = ''missing_primary_key'', rec_table = table_key, rec_column = None,
                rec_severity = ''high'',
                rec_description = ''Table '' @ table_key @ '' lacks a primary key'',
                rec_recommendation = ''Add a primary key or unique identifier column''\<rparr>])
      else analyze_indexing_loop rest recommendations)"

definition analyze_indexing :: "'c metadata \<Rightarrow> recommendation list" where
  "analyze_indexing metadata = analyze_indexing_loop (md_tables metadata) []"

definition date_types :: "string list" where
  "date_types = [''datetime'', ''datetime2'', ''date'']"

fun analyze_partitioning_loop ::
  "(string \<times> table_info) list \<Rightarrow> recommendation list \<Rightarrow> recommendation list" where
  "analyze_partitioning_loop [] recommendations = recommendations"
| "analyze_partitioning_loop ((table_key, table_info) # rest) recommendations =
     (case filter (\<lambda>col. lower (col_data_type col) \<in> set date_types) (tbl_columns table_info) of
        [] \<Rightarrow> analyze_partitioning_loop rest recommendations
      | first_date # _ \<Rightarrow>
          analyze_partitioning_loop rest
            (recommendations @
             [\<lparr>rec_type = ''partitioning_opportunity'', rec_table = table_key,
               rec_column = None, rec_severity = ''medium'',
               rec_description =
                 ''Table '' @ table_key @ '' has date columns suitable for partitioning'',
               rec_recommendation = ''Consider partitioning by '' @ col_name first_date\<rparr>]))"

definition analyze_partitioning :: "'c metadata \<Rightarrow> recommendation list" where
  "analyze_partitioning metadata = analyze_partitioning_loop (md_tables metadata) []"

text \<open>
  \<open>_analyze_data_types\<close>. The \<open>max_length\<close> key is always present, so \<open>get\<close> returns its
  value; comparing \<open>None > 1000\<close> raises \<open>TypeError\<close>, and \<open>and\<close> evaluates the comparison
  only for a varchar or nvarchar column.
\<close>

definition varchar_types :: "string list" where
  "varchar_types = [''varchar'', ''nvarchar'']"

definition oversized_varchar :: "string \<Rightarrow> column \<Rightarrow> recommendation" where
  "oversized_varchar table_key c =
     \<lparr>rec_type = ''oversized_varchar'', rec_table = table_key, rec_column = Some (col_name c),
      rec_severity = ''low'',
      rec_description = ''Column '' @ col_name c @ '' has large varchar size'',
      rec_recommendation = ''Consider using TEXT type or reducing size''\<rparr>"

fun analyze_data_types_columns ::
  "string \<Rightarrow> column list \<Rightarrow> recommendation list \<Rightarrow> py_error + recommendation list" where
  "analyze_data_types_columns table_key [] recommendations = Inr recommendations"
| "analyze_data_types_columns table_key (c # cs) recommendations =
     (if lower (col_data_type c) \<in> set varchar_types
      then (case col_max_length c of
              None \<Rightarrow> Inl TypeError
            | Some n \<Rightarrow>
                if n > 1000
                then analyze_data_types_columns table_key cs
                       (recommendations @ [oversized_varchar table_key c])
                else analyze_data_types_columns table_key cs recommendations)
      else analyze_data_types_columns table_key cs recommendations)"

fun analyze_data_types_loop ::
  "(string \<times> table_info) list \<Rightarrow> recommendation list \<Rightarrow> py_error + recommendation list" where
  "analyze_data_types_loop [] recommendations = Inr recommendations"
| "analyze_data_types_loop ((table_key, table_info) # rest) recommendations =
     (case analyze_data_types_columns table_key (tbl_columns table_info) recommendations of
        Inl e \<Rightarrow> Inl e
      | Inr recommendations' \<Rightarrow> analyze_data_types_loop rest recommendations')"

definition analyze_data_types :: "'c metadata \<Rightarrow> py_error + recommendation list" where
  "analyze_data_types metadata = analyze_data_types_loop (md_tables metadata) []"

definition analyze_constraints :: "'c metadata \<Rightarrow> recommendation list" where
  "analyze_constraints metadata = []"

definition analyze_schema :: "'c metadata \<Rightarrow> py_error + report" where
  "analyze_schema metadata =
     (let indexing = analyze_indexing metadata;
          partitioning = analyze_partitioning metadata
      in case analyze_data_types metadata of
           Inl e \<Rightarrow> Inl e
         | Inr data_types \<Rightarrow>
             Inr \<lparr>rep_indexing = indexing, rep_partitioning = partitioning,
                  rep_data_types = data_types,
                  rep_constraints = analyze_constraints metadata\<rparr>)"

text \<open>The data-type recommendations of a report, when the analysis returned one.\<close>

definition data_type_recommendations :: "'c metadata \<Rightarrow> recommendation list option" where
  "data_type_recommendations metadata =
     (case analyze_schema metadata of Inl e \<Rightarrow> None | Inr r \<Rightarrow> Some (rep_data_types r))"

section \<open>DataConverter\<close>

text \<open>
  A batch is a pandas DataFrame: row labels and labelled columns in order, each column
  a Series with a dtype (by name) and one cell per row. A cell is a Python string, a
  \<open>bytes\<close> value (what the driver returns for binary, varbinary and image columns), or
  some other object; \<open>py_str\<close>, a parameter throughout, is Python's \<open>str\<close> on those
  other objects.
\<close>

datatype 'o cell = Str string | Bytes string | Obj 'o

record 'o series =
  s_dtype :: string
  s_values :: "'o cell list"

record 'o dataframe =
  df_index :: "int list"
  df_columns :: "(string \<times> 'o series) list"

definition row_count :: "'o dataframe \<Rightarrow> nat" where
  "row_count df = length (df_index df)"

text \<open>
  \<open>bytes.decode()\<close>: strict UTF-8. A string of the model is its UTF-8 bytes, so well-formed
  bytes decode to themselves and anything else raises \<open>UnicodeDecodeError\<close>.
\<close>

definition continuation :: "nat \<Rightarrow> bool" where
  "continuation b = (128 \<le> b \<and> b \<le> 191)"

fun utf8_valid :: "nat list \<Rightarrow> bool" where
  "utf8_valid [] = True"
| "utf8_valid (b # bs) =
     (if b < 128 then utf8_valid bs
      else if 194 \<le> b \<and> b \<le> 223 then
        (case bs of
           c1 # r \<Rightarrow> continuation c1 \<and> utf8_valid r
         | _ \<Rightarrow> False)
      else if 224 \<le> b \<and> b \<le> 239 then
        (case bs of
           c1 # c2 # r \<Rightarrow>
             (if b = 224 then 160 \<le> c1 \<and> c1 \<le> 191
              else if b = 237 then 128 \<le> c1 \<and> c1 \<le> 159
              else continuation c1)
             \<and> continuation c2 \<and> utf8_valid r
         | _ \<Rightarrow> False)
      else if 240 \<le> b \<and> b \<le> 244 then
        (case bs of
           c1 # c2 # c3 # r \<Rightarrow>
             (if b = 240 then 144 \<le> c1 \<and> c1 \<le> 191
              else if b = 244 then 128 \<le> c1 \<and> c1 \<le> 143
              else continuation c1)
             \<and> continuation c2 \<and> continuation c3 \<and> utf8_valid r
         | _ \<Rightarrow> False)
      else False)"

definition bytes_decode :: "string \<Rightarrow> py_error + string" where
  "bytes_decode bs =
     (if utf8_valid (map of_char bs) then Inr bs else Inl UnicodeDecodeError)"

text \<open>
  \<open>astype(str)\<close> on an object column goes through the cells in order: a \<open>bytes\<close> cell is
  decoded, every other cell is formatted with \<open>str\<close> (a string is left as it is), and
  the result is an object column of strings. The first cell that fails to decode
  raises.
\<close>

definition cell_to_str :: "('o \<Rightarrow> string) \<Rightarrow> 'o cell \<Rightarrow> py_error + string" where
  "cell_to_str py_str v =
     (case v of
        Bytes bs \<Rightarrow> bytes_decode bs
      | Str x \<Rightarrow> Inr x
      | Obj x \<Rightarrow> Inr (py_str x))"

fun ensure_string_array :: "('o \<Rightarrow> string) \<Rightarrow> 'o cell list \<Rightarrow> py_error + 'o cell list" where
  "ensure_string_array py_str [] = Inr []"
| "ensure_string_array py_str (v # vs) =
     (case cell_to_str py_str v of
        Inl e \<Rightarrow> Inl e
      | Inr x \<Rightarrow>
          (case ensure_string_array py_str vs of
             Inl e \<Rightarrow> Inl e
           | Inr result \<Rightarrow> Inr (Str x # result)))"

definition astype_str :: "('o \<Rightarrow> string) \<Rightarrow> 'o series \<Rightarrow> py_error + 'o series" where
  "astype_str py_str series =
     (case ensure_string_array py_str (s_values series) of
        Inl e \<Rightarrow> Inl e
      | Inr result \<Rightarrow> Inr \<lparr>s_dtype = ''object'', s_values = result\<rparr>)"

text \<open>
  \<open>pd.to_datetime\<close> on a column that already has a datetime dtype and \<open>astype(bool)\<close> on
  a bool column return the column as it is.
\<close>

definition to_datetime :: "'o series \<Rightarrow> 'o series" where
  "to_datetime series = series"

definition astype_bool :: "'o series \<Rightarrow> 'o series" where
  "astype_bool series = series"

definition convert_column_data ::
  "('o \<Rightarrow> string) \<Rightarrow> 'o series \<Rightarrow> string \<Rightarrow> string \<Rightarrow> py_error + 'o series" where
  "convert_column_data py_str series table_name column_name =
     (if s_dtype series = ''object'' then astype_str py_str series
      else if sublist ''datetime'' (s_dtype series) then Inr (to_datetime series)
      else if s_dtype series = ''bool'' then Inr (astype_bool series)
      else Inr series)"

text \<open>
  \<open>converted_batch[column]\<close> followed by \<open>.dtype\<close>: a label that occurs once selects a
  Series; a label that occurs several times selects a DataFrame, which has no \<open>dtype\<close>
  attribute.
\<close>

definition select_series :: "'o dataframe \<Rightarrow> string \<Rightarrow> py_error + 'o series" where
  "select_series df label =
     (case filter (\<lambda>p. fst p = label) (df_columns df) of
        [] \<Rightarrow> Inl KeyError
      | [p] \<Rightarrow> Inr (snd p)
      | _ \<Rightarrow> Inl AttributeError)"

definition set_column :: "'o dataframe \<Rightarrow> string \<Rightarrow> 'o series \<Rightarrow> 'o dataframe" where
  "set_column df label series = df\<lparr>df_columns := AList.update label series (df_columns df)\<rparr>"

fun convert_batch_loop ::
  "('o \<Rightarrow> string) \<Rightarrow> string list \<Rightarrow> string \<Rightarrow> 'o dataframe \<Rightarrow> py_error + 'o dataframe" where
  "convert_batch_loop py_str [] table_name converted_batch = Inr converted_batch"
| "convert_batch_loop py_str (column # rest) table_name converted_batch =
     (case select_series converted_batch column of
        Inl e \<Rightarrow> Inl e
      | Inr series \<Rightarrow>
          (case convert_column_data py_str series table_name column of
             Inl e \<Rightarrow> Inl e
           | Inr converted \<Rightarrow>
               convert_batch_loop py_str rest table_name
                 (set_column converted_batch column converted)))"

definition convert_batch ::
  "('o \<Rightarrow> string) \<Rightarrow> 'o dataframe \<Rightarrow> string \<Rightarrow> py_error + 'o dataframe" where
  "convert_batch py_str data_batch table_name =
     (let converted_batch = data_batch
      in convert_batch_loop py_str (map fst (df_columns converted_batch)) table_name
           converted_batch)"

section \<open>MigrationOrchestrator\<close>

text \<open>
  The extractor and the loader talk to databases; they are fields of the orchestrator.
  \<open>extract_data\<close> gives the batches its generator yields and the exception that ends
  the iteration, if any; \<open>load_data\<close> gives the exception it raises, if any. Every call
  to a collaborator is appended to a trace (the logger's lines are left out of it).
\<close>

datatype 'o event =
    ExtractData string int
  | ConvertBatch "'o dataframe" string
  | LoadData string "'o dataframe"

record 'o orchestrator =
  config_batch_size :: "int option"
  dry_run :: bool
  extract_data :: "string \<Rightarrow> int \<Rightarrow> 'o dataframe list \<times> py_error option"
  load_data :: "string \<Rightarrow> 'o dataframe \<Rightarrow> py_error option"
  py_str_of :: "'o \<Rightarrow> string"

fun is_load :: "'o event \<Rightarrow> bool" where
  "is_load (LoadData t b) = True"
| "is_load e = False"

fun migrate_batches ::
  "'o orchestrator \<Rightarrow> string \<Rightarrow> 'o dataframe list \<Rightarrow> 'o event list
     \<Rightarrow> (py_error + unit) \<times> 'o event list" where
  "migrate_batches self table_name [] tr = (Inr (), tr)"
| "migrate_batches self table_name (data_batch # rest) tr =
     (let tr1 = tr @ [ConvertBatch data_batch table_name]
      in case convert_batch (py_str_of self) data_batch table_name of
           Inl e \<Rightarrow> (Inl e, tr1)
         | Inr converted_data \<Rightarrow>
             if \<not> dry_run self
             then (let tr2 = tr1 @ [LoadData table_name converted_data]
                   in case load_data self table_name converted_data of
                        Some e \<Rightarrow> (Inl e, tr2)
                      | None \<Rightarrow> migrate_batches self table_name rest tr2)
             else migrate_batches self table_name rest tr1)"

fun migrate_tables ::
  "'o orchestrator \<Rightarrow> int \<Rightarrow> string list \<Rightarrow> 'o event list
     \<Rightarrow> (py_error + unit) \<times> 'o event list" where
  "migrate_tables self batch_size [] tr = (Inr (), tr)"
| "migrate_tables self batch_size (table_name # rest) tr =
     (let tr1 = tr @ [ExtractData table_name batch_size];
          (batches, raised) = extract_data self table_name batch_size
      in case migrate_batches self table_name batches tr1 of
           (Inl e, tr2) \<Rightarrow> (Inl e, tr2)
         | (Inr u, tr2) \<Rightarrow>
             (case raised of
                Some e \<Rightarrow> (Inl e, tr2)
              | None \<Rightarrow> migrate_tables self batch_size rest tr2))"

definition batch_size_of :: "'o orchestrator \<Rightarrow> int" where
  "batch_size_of self = (case config_batch_size self of None \<Rightarrow> 10000 | Some n \<Rightarrow> n)"

definition migrate_data ::
  "'o orchestrator \<Rightarrow> 'c metadata \<Rightarrow> (py_error + unit) \<times> 'o event list" where
  "migrate_data self source_metadata =
     migrate_tables self (batch_size_of self) (map fst (md_tables source_metadata)) []"

text \<open>The calls a dry run makes for one table: the extraction, then one conversion per batch.\<close>

definition dry_run_calls :: "'o orchestrator \<Rightarrow> string \<Rightarrow> 'o event list" where
  "dry_run_calls self table_name =
     ExtractData table_name (batch_size_of self)
       # map (\<lambda>b. ConvertBatch b table_name)
           (fst (extract_data self table_name (batch_size_of self)))"

section \<open>Example inputs\<close>

definition geo_col :: column where
  "geo_col =
     \<lparr>col_name = ''Shape'', col_data_type = ''Geography'', col_max_length = Some (- 1),
      col_precision = None, col_scale = None, col_is_nullable = True,
      col_default_value = None, col_ordinal_position = 3, col_is_primary_key = None\<rparr>"

definition notes_col :: column where
  "notes_col =
     \<lparr>col_name = ''Notes'', col_data_type = ''NVarChar'', col_max_length = Some (- 1),
      col_precision = None, col_scale = None, col_is_nullable = True,
      col_default_value = None, col_ordinal_position = 4, col_is_primary_key = None\<rparr>"

definition dec_col :: column where
  "dec_col =
     \<lparr>col_name = ''Quantity'', col_data_type = ''decimal'', col_max_length = None,
      col_precision = Some 10, col_scale = Some 0, col_is_nullable = False,
      col_default_value = None, col_ordinal_position = 2, col_is_primary_key = None\<rparr>"

definition price_col :: column where
  "price_col =
     \<lparr>col_name = ''Price'', col_data_type = ''Numeric'', col_max_length = None,
      col_precision = Some 18, col_scale = Some 4, col_is_nullable = False,
      col_default_value = Some ''((0))'', col_ordinal_position = 5,
      col_is_primary_key = None\<rparr>"

definition pk_index :: index_info where
  "pk_index =
     \<lparr>idx_name = ''PK_Customer'', idx_table = ''Customer'', idx_type = ''CLUSTERED'',
      idx_is_unique = True, idx_is_primary_key = True,
      idx_columns = [\<lparr>ic_name = ''Id'', ic_ordinal = 1, ic_descending = False\<rparr>]\<rparr>"

definition name_index :: index_info where
  "name_index =
     \<lparr>idx_name = ''IX_Customer_Name'', idx_table = ''Customer'', idx_type = ''NONCLUSTERED'',
      idx_is_unique = False, idx_is_primary_key = False,
      idx_columns = [\<lparr>ic_name = ''Name'', ic_ordinal = 1, ic_descending = False\<rparr>]\<rparr>"

definition customer_metadata :: "unit metadata" where
  "customer_metadata =
     \<lparr>md_tables = [], md_views = [],
      md_indexes = [(''Customer.PK_Customer'', pk_index),
                    (''Customer.IX_Customer_Name'', name_index)],
      md_constraints = []\<rparr>"

definition bio_col :: column where
  "bio_col =
     \<lparr>col_name = ''Bio'', col_data_type = ''char'', col_max_length = Some 2000,
      col_precision = None, col_scale = None, col_is_nullable = True,
      col_default_value = None, col_ordinal_position = 1, col_is_primary_key = None\<rparr>"

definition members_metadata :: "unit metadata" where
  "members_metadata =
     \<lparr>md_tables = [(''dbo.Member'',
                     \<lparr>tbl_schema = ''dbo'', tbl_name = ''Member'', tbl_columns = [bio_col]\<rparr>)],
      md_views = [], md_indexes = [], md_constraints = []\<rparr>"

definition desc_col :: column where
  "desc_col =
     \<lparr>col_name = ''Description'', col_data_type = ''VARCHAR'', col_max_length = Some 4000,
      col_precision = None, col_scale = None, col_is_nullable = True,
      col_default_value = None, col_ordinal_position = 1, col_is_primary_key = None\<rparr>"

definition catalog_metadata :: "unit metadata" where
  "catalog_metadata =
     \<lparr>md_tables = [(''dbo.Product'',
                     \<lparr>tbl_schema = ''dbo'', tbl_name = ''Product'',
                      tbl_columns = [bio_col, desc_col]\<rparr>)],
      md_views = [], md_indexes = [], md_constraints = []\<rparr>"

definition orders_batch :: "int dataframe" where
  "orders_batch =
     \<lparr>df_index = [0, 1],
      df_columns =
        [(''Id'', \<lparr>s_dtype = ''int64'', s_values = [Obj 1, Obj 2]\<rparr>),
         (''Customer'', \<lparr>s_dtype = ''object'', s_values = [Str ''Ann'', Obj 7]\<rparr>)]\<rparr>"

definition orders_metadata :: "unit metadata" where
  "orders_metadata =
     \<lparr>md_tables = [(''dbo.Orders'',
                     \<lparr>tbl_schema = ''dbo'', tbl_name = ''Orders'', tbl_columns = []\<rparr>)],
      md_views = [], md_indexes = [], md_constraints = []\<rparr>"

definition preview_run :: "int orchestrator" where
  "preview_run =
     \<lparr>config_batch_size = None, dry_run = True,
      extract_data = (\<lambda>t n. ([orders_batch], None)),
      load_data = (\<lambda>t b. None),
      py_str_of = str_int\<rparr>"

definition blob_batch :: "int dataframe" where
  "blob_batch =
     \<lparr>df_index = [0],
      df_columns =
        [(''Id'', \<lparr>s_dtype = ''int64'', s_values = [Obj 1]\<rparr>),
         (''Content'', \<lparr>s_dtype = ''object'', s_values = [Bytes [CHR 0xFF, CHR 0xFE]]\<rparr>)]\<rparr>"

definition files_metadata :: "unit metadata" where
  "files_metadata =
     \<lparr>md_tables =
        [(''dbo.Files'', \<lparr>tbl_schema = ''dbo'', tbl_name = ''Files'', tbl_columns = []\<rparr>),
         (''dbo.Orders'', \<lparr>tbl_schema = ''dbo'', tbl_name = ''Orders'', tbl_columns = []\<rparr>)],
      md_views = [], md_indexes = [], md_constraints = []\<rparr>"

definition files_run :: "int orchestrator" where
  "files_run =
     \<lparr>config_batch_size = None, dry_run = True,
      extract_data = (\<lambda>t n. if t = ''dbo.Files'' then ([blob_batch], None)
                              else ([orders_batch], None)),
      load_data = (\<lambda>t b. None),
      py_str_of = str_int\<rparr>"

definition offline_run :: "int orchestrator" where
  "offline_run =
     \<lparr>config_batch_size = None, dry_run = True,
      extract_data = (\<lambda>t n. ([], Some (ExtractionError ''connection lost''))),
      load_data = (\<lambda>t b. None),
      py_str_of = str_int\<rparr>"

section \<open>Default values\<close>

text \<open>
  C2, at the specification's own example: the default \<open>(getdate())\<close> loses the call's
  own parentheses to \<open>strip('()')\<close>, no key of the table equals \<open>getdate\<close>, and the
  stripped text is returned; the default \<open>(100)\<close> comes back as \<open>100\<close>.
\<close>

theorem convert_default_value_getdate:
  "convert_default_value (Some ''(getdate())'') = Some ''getdate''
   \<and> convert_default_value (Some ''(100)'') = Some ''100''"
  by (simp add: convert_default_value_def default_conversions_def strip_chars_def
      lower_def lower_char_def ascii_uppercase_def ascii_lowercase_def)

text \<open>
  What \<open>strip('()')\<close> leaves never ends in a parenthesis, so no default reaches the
  four keys that are calls: a default comes back absent, stripped, or as
  \<open>CURRENT_USER\<close> (from \<open>system_user\<close>).
\<close>

lemma lower_char_paren: "lower_char c = CHR '')'' \<Longrightarrow> c = CHR '')''"
  by (simp add: lower_char_def ascii_uppercase_def ascii_lowercase_def split: if_splits)

lemma strip_chars_last:
  assumes "strip_chars cs s \<noteq> []"
  shows "last (strip_chars cs s) \<notin> set cs"
proof -
  let ?zs = "dropWhile (\<lambda>c. c \<in> set cs) (rev (dropWhile (\<lambda>c. c \<in> set cs) s))"
  from assms have ne: "?zs \<noteq> []"
    by (simp add: strip_chars_def)
  then have "hd ?zs \<notin> set cs"
    by (rule hd_dropWhile)
  moreover have "last (strip_chars cs s) = hd ?zs"
    using ne by (simp add: strip_chars_def last_rev)
  ultimately show ?thesis by simp
qed

lemma lower_strip_no_call:
  assumes "k \<noteq> []" and "last k = CHR '')''"
  shows "lower (strip_chars ''()'' d) \<noteq> k"
proof
  assume e: "lower (strip_chars ''()'' d) = k"
  with assms(1) have ne: "strip_chars ''()'' d \<noteq> []"
    by (auto simp: lower_def)
  from e have "last k = lower_char (last (strip_chars ''()'' d))"
    using ne by (auto simp: lower_def last_map)
  with assms(2) have "last (strip_chars ''()'' d) = CHR '')''"
    by (simp add: lower_char_paren)
  moreover from strip_chars_last[OF ne] have "last (strip_chars ''()'' d) \<noteq> CHR '')''"
    by auto
  ultimately show False by simp
qed

lemma convert_default_value_reachable:
  "convert_default_value (Some d) = None
   \<or> convert_default_value (Some d) = Some (strip_chars ''()'' d)
   \<or> convert_default_value (Some d) = Some ''CURRENT_USER''"
  using lower_strip_no_call[of "''getdate()''" d] lower_strip_no_call[of "''getutcdate()''" d]
    lower_strip_no_call[of "''newid()''" d] lower_strip_no_call[of "''user_name()''" d]
  by (simp add: convert_default_value_def default_conversions_def)

section \<open>Column types\<close>

lemma map_data_type_unknown:
  "map_of load_data_type_mapping t = None \<Longrightarrow>
   map_data_type lg t =
     (''TEXT'', lg @ [(WARNING, ''Unknown data type: '' @ t @ '', using TEXT'')])"
  by (simp add: map_data_type_def)

lemma unknown_not_char:
  "map_of load_data_type_mapping t = None \<Longrightarrow> t \<notin> set char_types"
  by (auto simp: load_data_type_mapping_def char_types_def)

lemma unknown_not_numeric:
  "map_of load_data_type_mapping t = None \<Longrightarrow> t \<notin> set numeric_types"
  by (auto simp: load_data_type_mapping_def numeric_types_def)

text \<open>
  C1: \<open>convert_column\<close> is a total function of the column (no step of it can raise on
  a column of the data model), and for a column whose lowered type name is not a key
  of the type mapping it returns the type \<open>TEXT\<close>, the other fields converted as for
  any column, and the log with exactly one warning appended.
\<close>

theorem convert_column_unknown_type:
  assumes "map_of load_data_type_mapping (lower (col_data_type c)) = None"
  shows "convert_column lg c =
     (\<lparr>cc_name = col_name c, cc_data_type = ''TEXT'', cc_is_nullable = col_is_nullable c,
       cc_default_value = convert_default_value (col_default_value c),
       cc_ordinal_position = col_ordinal_position c\<rparr>,
      lg @ [(WARNING, ''Unknown data type: '' @ lower (col_data_type c) @ '', using TEXT'')])"
  using assms unknown_not_char[OF assms] unknown_not_numeric[OF assms]
  by (simp add: convert_column_def Let_def map_data_type_unknown apply_length_def
      apply_precision_def split: option.splits)

theorem convert_column_unknown_type_witness:
  "map_of load_data_type_mapping (lower (col_data_type geo_col)) = None
   \<and> convert_column [] geo_col =
     (\<lparr>cc_name = ''Shape'', cc_data_type = ''TEXT'', cc_is_nullable = True,
       cc_default_value = None, cc_ordinal_position = 3\<rparr>,
      [(WARNING, ''Unknown data type: geography, using TEXT'')])"
proof -
  have h: "map_of load_data_type_mapping (lower (col_data_type geo_col)) = None"
    by (simp add: geo_col_def lower_def lower_char_def ascii_uppercase_def
        ascii_lowercase_def load_data_type_mapping_def)
  show ?thesis
    using h convert_column_unknown_type[OF h, of "[]"]
    by (simp add: geo_col_def lower_def lower_char_def ascii_uppercase_def
        ascii_lowercase_def convert_default_value_def)
qed

text \<open>Every column of a table is converted, whatever its type.\<close>

lemma convert_columns_length:
  "length (fst (convert_columns lg cs acc)) = length acc + length cs"
  by (induction cs arbitrary: lg acc) (auto split: prod.splits)

text \<open>
  C3: a column whose lowered type name is one of varchar, nvarchar, char, nchar and
  whose max length is \<open>-1\<close> gets the type \<open>TEXT\<close>, with no suffix.
\<close>

theorem convert_column_max_length:
  assumes "lower (col_data_type c) \<in> set char_types" and "col_max_length c = Some (- 1)"
  shows "cc_data_type (fst (convert_column lg c)) = ''TEXT''"
proof -
  have "lower (col_data_type c) \<notin> set numeric_types"
    using assms(1) by (auto simp: char_types_def numeric_types_def)
  then show ?thesis
    using assms
    by (simp add: convert_column_def Let_def apply_length_def apply_precision_def
        split: prod.splits option.splits)
qed

theorem convert_column_max_length_witness:
  "lower (col_data_type notes_col) \<in> set char_types
   \<and> col_max_length notes_col = Some (- 1)
   \<and> cc_data_type (fst (convert_column [] notes_col)) = ''TEXT''"
proof -
  have h1: "lower (col_data_type notes_col) \<in> set char_types"
    by (simp add: notes_col_def lower_def lower_char_def ascii_uppercase_def
        ascii_lowercase_def char_types_def)
  have h2: "col_max_length notes_col = Some (- 1)"
    by (simp add: notes_col_def)
  show ?thesis
    using h1 h2 convert_column_max_length[OF h1 h2, of "[]"] by simp
qed

text \<open>
  C4 as stated fails on a scale of zero: for a decimal column of precision 10 and
  scale 0 the converter writes \<open>DECIMAL(10)\<close>, where the stated form has the scale
  segment, \<open>DECIMAL(10,0)\<close>.
\<close>

theorem convert_column_scale_zero:
  "cc_data_type (fst (convert_column [] dec_col)) = ''DECIMAL(10)''
   \<and> spec_numeric_type ''DECIMAL'' 10 (col_scale dec_col) = ''DECIMAL(10,0)''
   \<and> cc_data_type (fst (convert_column [] dec_col))
       \<noteq> spec_numeric_type ''DECIMAL'' 10 (col_scale dec_col)"
  by code_simp

text \<open>
  C4, amended: for a decimal or numeric column whose precision is present and not zero,
  the type is the mapped type, the precision in parentheses, and a scale segment
  exactly when the scale is present and not zero.
\<close>

theorem convert_column_numeric:
  assumes "lower (col_data_type c) \<in> set numeric_types"
    and "map_of load_data_type_mapping (lower (col_data_type c)) = Some mapped"
    and "col_precision c = Some p" and "p \<noteq> 0"
  shows "cc_data_type (fst (convert_column lg c)) =
     mapped @ ''('' @ str_int p
       @ (case col_scale c of None \<Rightarrow> [] | Some s \<Rightarrow> if s \<noteq> 0 then '','' @ str_int s else [])
       @ '')''"
proof -
  have "lower (col_data_type c) \<notin> set char_types"
    using assms(1) by (auto simp: char_types_def numeric_types_def)
  then show ?thesis
    using assms
    by (simp add: convert_column_def Let_def map_data_type_def apply_length_def
        apply_precision_def split: prod.splits option.splits)
qed

theorem convert_column_numeric_witness:
  "lower (col_data_type price_col) \<in> set numeric_types
   \<and> map_of load_data_type_mapping (lower (col_data_type price_col)) = Some ''NUMERIC''
   \<and> col_precision price_col = Some 18 \<and> (18::int) \<noteq> 0
   \<and> cc_data_type (fst (convert_column [] price_col)) = ''NUMERIC(18,4)''"
proof -
  have h1: "lower (col_data_type price_col) \<in> set numeric_types"
    by code_simp
  have h2: "map_of load_data_type_mapping (lower (col_data_type price_col)) = Some ''NUMERIC''"
    by code_simp
  have h3: "col_precision price_col = Some 18"
    by code_simp
  have h4: "(18::int) \<noteq> 0"
    by simp
  have s1: "str_int 18 = ''18''" and s2: "str_int 4 = ''4''"
    and s3: "col_scale price_col = Some 4"
    by code_simp+
  show ?thesis
    using h1 h2 h3 convert_column_numeric[OF h1 h2 h3 h4, of "[]"]
    by (simp add: s1 s2 s3)
qed

section \<open>Indexes and constraints\<close>

lemma keys_update: "fst ` set (AList.update k v al) = insert k (fst ` set al)"
  by (induction al) auto

lemma set_update_subset: "set (AList.update k v al) \<subseteq> insert (k, v) (set al)"
  by (induction al) auto

lemma convert_indexes_loop_keys:
  "fst ` set (convert_indexes_loop xs acc) =
     fst ` set acc \<union> fst ` {(k, i). (k, i) \<in> set xs \<and> \<not> idx_is_primary_key i}"
proof (induction xs arbitrary: acc)
  case Nil
  then show ?case by simp
next
  case (Cons x xs)
  obtain k i where x: "x = (k, i)" by (cases x)
  show ?case
    unfolding x using Cons.IH by (auto simp: keys_update image_iff)
qed

lemma convert_indexes_loop_entries:
  "set (convert_indexes_loop xs acc) \<subseteq>
     set acc \<union> {(k, converted_index_of i) | k i. (k, i) \<in> set xs \<and> \<not> idx_is_primary_key i}"
proof (induction xs arbitrary: acc)
  case Nil
  then show ?case by simp
next
  case (Cons x xs)
  obtain k i where x: "x = (k, i)" by (cases x)
  show ?case
  proof (cases "idx_is_primary_key i")
    case True
    then show ?thesis
      unfolding x using Cons.IH[of acc] by fastforce
  next
    case False
    then show ?thesis
      unfolding x
      using Cons.IH[of "AList.update k (converted_index_of i) acc"]
        set_update_subset[of k "converted_index_of i" acc]
      by fastforce
  qed
qed

lemma cs_indexes_convert:
  "cs_indexes (fst (convert re_sub lg md)) = convert_indexes (md_indexes md)"
  by (simp add: convert_def split: prod.splits)

text \<open>
  C5: in the schema that \<open>convert\<close> returns, the key of a primary-key index of the
  snapshot is not a key of the index dict, and every entry of the index dict is the
  conversion of a snapshot index whose primary-key flag is not set. The keys of the
  snapshot's index dict are distinct, as the keys of a dict are.
\<close>

theorem convert_excludes_primary_key_indexes:
  assumes "distinct (map fst (md_indexes md))"
  shows "(\<forall>k i. (k, i) \<in> set (md_indexes md) \<and> idx_is_primary_key i
            \<longrightarrow> k \<notin> fst ` set (cs_indexes (fst (convert re_sub lg md))))
       \<and> (\<forall>k v. (k, v) \<in> set (cs_indexes (fst (convert re_sub lg md)))
            \<longrightarrow> (\<exists>i. (k, i) \<in> set (md_indexes md) \<and> \<not> idx_is_primary_key i
                      \<and> v = converted_index_of i))"
proof (intro conjI allI impI)
  fix k i
  assume a: "(k, i) \<in> set (md_indexes md) \<and> idx_is_primary_key i"
  show "k \<notin> fst ` set (cs_indexes (fst (convert re_sub lg md)))"
  proof
    assume "k \<in> fst ` set (cs_indexes (fst (convert re_sub lg md)))"
    then have "k \<in> fst ` {(k, i). (k, i) \<in> set (md_indexes md) \<and> \<not> idx_is_primary_key i}"
      by (simp add: cs_indexes_convert convert_indexes_def convert_indexes_loop_keys)
    then obtain i' where i': "(k, i') \<in> set (md_indexes md)" "\<not> idx_is_primary_key i'"
      by auto
    from assms a i'(1) have "i = i'"
      by (meson eq_key_imp_eq_value)
    with a i'(2) show False by simp
  qed
next
  fix k v
  assume "(k, v) \<in> set (cs_indexes (fst (convert re_sub lg md)))"
  then show "\<exists>i. (k, i) \<in> set (md_indexes md) \<and> \<not> idx_is_primary_key i
      \<and> v = converted_index_of i"
    using convert_indexes_loop_entries[of "md_indexes md" "[]"]
    by (auto simp: cs_indexes_convert convert_indexes_def)
qed

theorem convert_excludes_primary_key_indexes_witness:
  "distinct (map fst (md_indexes customer_metadata))
   \<and> (''Customer.PK_Customer'', pk_index) \<in> set (md_indexes customer_metadata)
   \<and> idx_is_primary_key pk_index
   \<and> ''Customer.PK_Customer''
       \<notin> fst ` set (cs_indexes (fst (convert (\<lambda>r s. s) [] customer_metadata)))
   \<and> cs_indexes (fst (convert (\<lambda>r s. s) [] customer_metadata))
       = [(''Customer.IX_Customer_Name'', converted_index_of name_index)]"
proof -
  have h: "distinct (map fst (md_indexes customer_metadata))"
    by (simp add: customer_metadata_def)
  have m: "(''Customer.PK_Customer'', pk_index) \<in> set (md_indexes customer_metadata)"
    by (simp add: customer_metadata_def)
  have p: "idx_is_primary_key pk_index"
    by (simp add: pk_index_def)
  have e: "cs_indexes (fst (convert (\<lambda>r s. s) [] customer_metadata))
       = [(''Customer.IX_Customer_Name'', converted_index_of name_index)]"
    by (simp add: cs_indexes_convert convert_indexes_def customer_metadata_def
        pk_index_def name_index_def)
  from convert_excludes_primary_key_indexes[OF h, of "\<lambda>r s. s" "[]"] m p
  have "''Customer.PK_Customer''
       \<notin> fst ` set (cs_indexes (fst (convert (\<lambda>r s. s) [] customer_metadata)))"
    by blast
  with h m p e show ?thesis by blast
qed

text \<open>
  C10: whatever the snapshot's constraint dict holds, the schema that \<open>convert\<close>
  returns has an empty constraint dict.
\<close>

theorem convert_constraints_empty:
  "cs_constraints (fst (convert re_sub lg md)) = []"
  by (simp add: convert_def convert_constraints_def split: prod.splits)


section \<open>Performance recommendations\<close>

lemma analyze_data_types_columns_exact:
  assumes "\<forall>c\<in>set cs. lower (col_data_type c) \<in> set varchar_types \<longrightarrow> col_max_length c \<noteq> None"
  shows "analyze_data_types_columns k cs acc =
     Inr (acc @ map (oversized_varchar k)
            (filter (\<lambda>c. lower (col_data_type c) \<in> set varchar_types
                      \<and> (\<exists>n. col_max_length c = Some n \<and> n > 1000)) cs))"
  using assms
proof (induction cs arbitrary: acc)
  case Nil
  then show ?case by simp
next
  case (Cons c cs)
  have rest: "\<forall>c\<in>set cs. lower (col_data_type c) \<in> set varchar_types \<longrightarrow> col_max_length c \<noteq> None"
    using Cons.prems by simp
  show ?case
  proof (cases "lower (col_data_type c) \<in> set varchar_types")
    case False
    then show ?thesis using Cons.IH[OF rest, of acc] by simp
  next
    case True
    with Cons.prems obtain n where n: "col_max_length c = Some n" by auto
    show ?thesis
    proof (cases "n > 1000")
      case False
      then show ?thesis using True n Cons.IH[OF rest, of acc] by simp
    next
      case big: True
      then show ?thesis
        using True n Cons.IH[OF rest, of "acc @ [oversized_varchar k c]"] by simp
    qed
  qed
qed

lemma analyze_data_types_loop_exact:
  assumes "\<forall>(k, t)\<in>set tbls. \<forall>c\<in>set (tbl_columns t).
      lower (col_data_type c) \<in> set varchar_types \<longrightarrow> col_max_length c \<noteq> None"
  shows "analyze_data_types_loop tbls acc =
     Inr (acc @ concat (map (\<lambda>(k, t). map (oversized_varchar k)
            (filter (\<lambda>c. lower (col_data_type c) \<in> set varchar_types
                      \<and> (\<exists>n. col_max_length c = Some n \<and> n > 1000)) (tbl_columns t))) tbls))"
  using assms
proof (induction tbls arbitrary: acc)
  case Nil
  then show ?case by simp
next
  case (Cons x tbls)
  obtain k t where x: "x = (k, t)" by (cases x)
  have here: "\<forall>c\<in>set (tbl_columns t).
      lower (col_data_type c) \<in> set varchar_types \<longrightarrow> col_max_length c \<noteq> None"
    using Cons.prems x by auto
  have rest: "\<forall>(k, t)\<in>set tbls. \<forall>c\<in>set (tbl_columns t).
      lower (col_data_type c) \<in> set varchar_types \<longrightarrow> col_max_length c \<noteq> None"
    using Cons.prems by auto
  show ?case
    unfolding x
    using analyze_data_types_columns_exact[OF here, of k acc] Cons.IH[OF rest]
    by simp
qed

text \<open>
  C9 as stated fails for the character types char and nchar: a char column of length
  2000 gets no recommendation.
\<close>

theorem analyze_schema_char_column:
  "lower (col_data_type bio_col) \<in> set char_types
   \<and> col_max_length bio_col = Some 2000
   \<and> data_type_recommendations members_metadata = Some []"
  by (simp add: data_type_recommendations_def analyze_schema_def analyze_data_types_def
      members_metadata_def bio_col_def lower_def lower_char_def ascii_uppercase_def
      ascii_lowercase_def char_types_def varchar_types_def)

text \<open>
  C9, amended: when every varchar or nvarchar column of the snapshot has a max length,
  \<open>analyze_schema\<close> returns a report whose data-type recommendations are exactly, table
  by table and column by column in order, one \<open>oversized_varchar\<close> recommendation for
  each varchar or nvarchar column (the type name compared case-insensitively) whose
  max length exceeds 1000, and nothing else: no column of another type, char and nchar
  included, gets one. Each of them has severity low.
\<close>

theorem analyze_schema_oversized_varchar:
  assumes "\<forall>(k, t)\<in>set (md_tables md). \<forall>c\<in>set (tbl_columns t).
      lower (col_data_type c) \<in> set varchar_types \<longrightarrow> col_max_length c \<noteq> None"
  shows "\<exists>r. analyze_schema md = Inr r
     \<and> rep_data_types r =
         concat (map (\<lambda>(k, t). map (oversized_varchar k)
            (filter (\<lambda>c. lower (col_data_type c) \<in> set varchar_types
                      \<and> (\<exists>n. col_max_length c = Some n \<and> n > 1000)) (tbl_columns t)))
          (md_tables md))
     \<and> (\<forall>x\<in>set (rep_data_types r). rec_severity x = ''low'')"
  using analyze_data_types_loop_exact[OF assms, of "[]"]
  by (auto simp: analyze_schema_def analyze_data_types_def Let_def oversized_varchar_def)

theorem analyze_schema_oversized_varchar_witness:
  "lower (col_data_type desc_col) \<in> set varchar_types
   \<and> col_max_length desc_col = Some 4000
   \<and> lower (col_data_type bio_col) \<notin> set varchar_types
   \<and> col_max_length bio_col = Some 2000
   \<and> data_type_recommendations catalog_metadata
       = Some [oversized_varchar ''dbo.Product'' desc_col]"
proof -
  have v: "lower (col_data_type desc_col) \<in> set varchar_types"
    by (simp add: desc_col_def lower_def lower_char_def ascii_uppercase_def
        ascii_lowercase_def varchar_types_def)
  have l: "col_max_length desc_col = Some 4000"
    by (simp add: desc_col_def)
  have v': "lower (col_data_type bio_col) \<notin> set varchar_types"
    by (simp add: bio_col_def lower_def lower_char_def ascii_uppercase_def
        ascii_lowercase_def varchar_types_def)
  have l': "col_max_length bio_col = Some 2000"
    by (simp add: bio_col_def)
  have h: "\<forall>(k, t)\<in>set (md_tables catalog_metadata). \<forall>c\<in>set (tbl_columns t).
      lower (col_data_type c) \<in> set varchar_types \<longrightarrow> col_max_length c \<noteq> None"
    by (simp add: catalog_metadata_def l l')
  from analyze_schema_oversized_varchar[OF h] obtain r where
    r: "analyze_schema catalog_metadata = Inr r"
      "rep_data_types r =
         concat (map (\<lambda>(k, t). map (oversized_varchar k)
            (filter (\<lambda>c. lower (col_data_type c) \<in> set varchar_types
                      \<and> (\<exists>n. col_max_length c = Some n \<and> n > 1000)) (tbl_columns t)))
          (md_tables catalog_metadata))"
    by blast
  have "rep_data_types r = [oversized_varchar ''dbo.Product'' desc_col]"
    unfolding r(2) by (simp add: catalog_metadata_def v v' l l')
  with r(1) v l v' l' show ?thesis
    by (simp add: data_type_recommendations_def)
qed


section \<open>Data conversion\<close>

lemma not_datetime_int64: "\<not> sublist ''datetime'' ''int64''"
  by code_simp

lemma filter_unique_label:
  assumes "distinct (map fst (done @ (l, s) # todo))"
  shows "filter (\<lambda>p. fst p = l) (done @ (l, s) # todo) = [(l, s)]"
proof -
  have "filter (\<lambda>p. fst p = l) done = []" "filter (\<lambda>p. fst p = l) todo = []"
    using assms by (auto simp: filter_empty_conv)
  then show ?thesis by simp
qed

lemma update_middle:
  "l \<notin> fst ` set done \<Longrightarrow> AList.update l v (done @ (l, s) # todo) = done @ (l, v) # todo"
  by (induction "done") auto

text \<open>With distinct labels the loop converts the remaining columns one by one, in place.\<close>

lemma convert_batch_loop_returns:
  assumes "df_columns df = done @ todo" and "distinct (map fst (done @ todo))"
    and "list_all2 (\<lambda>p p'. fst p' = fst p
            \<and> convert_column_data py_str (snd p) t (fst p) = Inr (snd p')) todo todo'"
  shows "convert_batch_loop py_str (map fst todo) t df = Inr (df\<lparr>df_columns := done @ todo'\<rparr>)"
  using assms
proof (induction todo arbitrary: df "done" todo')
  case Nil
  then show ?case by simp
next
  case (Cons p todo)
  obtain l s where p: "p = (l, s)" by (cases p)
  from Cons.prems(3) obtain p' rest' where t': "todo' = p' # rest'"
    and pp: "fst p' = l" "convert_column_data py_str s t l = Inr (snd p')"
    and rest: "list_all2 (\<lambda>p p'. fst p' = fst p
            \<and> convert_column_data py_str (snd p) t (fst p) = Inr (snd p')) todo rest'"
    by (auto simp: list_all2_Cons1 p)
  have p': "p' = (l, snd p')" using pp(1) by (cases p') simp
  let ?df' = "set_column df l (snd p')"
  have sel: "select_series df l = Inr s"
    using Cons.prems filter_unique_label[of "done" l s todo]
    by (simp add: select_series_def p)
  have notin: "l \<notin> fst ` set done"
    using Cons.prems(2) by (auto simp: p)
  have cols': "df_columns ?df' = (done @ [p']) @ todo"
    using Cons.prems(1) update_middle[OF notin, of "snd p'" s todo] p'
    by (simp add: set_column_def p)
  have dist': "distinct (map fst ((done @ [p']) @ todo))"
    using Cons.prems(2) pp(1) by (simp add: p)
  have "convert_batch_loop py_str (map fst (p # todo)) t df
      = convert_batch_loop py_str (map fst todo) t ?df'"
    using sel pp(2) by (simp add: p)
  also have "\<dots> = Inr (?df'\<lparr>df_columns := (done @ [p']) @ rest'\<rparr>)"
    by (rule Cons.IH[OF cols' dist' rest])
  also have "\<dots> = Inr (df\<lparr>df_columns := done @ todo'\<rparr>)"
    by (simp add: set_column_def t')
  finally show ?case .
qed

text \<open>A run that returns a batch has met every column label exactly once.\<close>

lemma keys_update_present:
  "l \<in> fst ` set al \<Longrightarrow> map fst (AList.update l v al) = map fst al"
  by (induction al) auto

lemma select_series_Inr:
  assumes "select_series df l = Inr s"
  shows "length (filter (\<lambda>k. k = l) (map fst (df_columns df))) = 1"
proof -
  have "length (filter (\<lambda>p. fst p = l) (df_columns df)) = 1"
    using assms by (auto simp: select_series_def split: list.splits)
  then show ?thesis by (simp add: filter_map comp_def)
qed

lemma convert_batch_loop_Inr_unique:
  assumes "convert_batch_loop py_str ls t df = Inr df'"
  shows "\<forall>l\<in>set ls. length (filter (\<lambda>k. k = l) (map fst (df_columns df))) = 1"
  using assms
proof (induction ls arbitrary: df)
  case Nil
  then show ?case by simp
next
  case (Cons l ls)
  from Cons.prems obtain s where s: "select_series df l = Inr s"
    by (auto split: sum.splits)
  from Cons.prems s obtain c where c: "convert_column_data py_str s t l = Inr c"
    by (auto split: sum.splits)
  let ?df' = "set_column df l c"
  from Cons.prems s c have run: "convert_batch_loop py_str ls t ?df' = Inr df'"
    by simp
  have one: "length (filter (\<lambda>k. k = l) (map fst (df_columns df))) = 1"
    by (rule select_series_Inr[OF s])
  have "filter (\<lambda>k. k = l) (map fst (df_columns df)) \<noteq> []"
  proof
    assume e: "filter (\<lambda>k. k = l) (map fst (df_columns df)) = []"
    from one show False unfolding e by simp
  qed
  then have "l \<in> fst ` set (df_columns df)"
    by (auto simp: filter_empty_conv)
  then have keys: "map fst (df_columns ?df') = map fst (df_columns df)"
    by (simp add: set_column_def keys_update_present)
  from Cons.IH[OF run] keys one show ?case by simp
qed

lemma unique_imp_distinct:
  "\<forall>l\<in>set ks. length (filter (\<lambda>k. k = l) ks) = 1 \<Longrightarrow> distinct ks"
proof (induction ks)
  case Nil
  then show ?case by simp
next
  case (Cons k ks)
  from Cons.prems have "length (filter (\<lambda>x. x = k) (k # ks)) = 1" by simp
  then have nk: "k \<notin> set ks" by (auto simp: filter_empty_conv)
  have "\<forall>l\<in>set ks. length (filter (\<lambda>x. x = l) ks) = 1"
  proof
    fix l assume l: "l \<in> set ks"
    with nk have "l \<noteq> k" by auto
    moreover from Cons.prems l have "length (filter (\<lambda>x. x = l) (k # ks)) = 1" by simp
    ultimately show "length (filter (\<lambda>x. x = l) ks) = 1" by simp
  qed
  with Cons.IH nk show ?case by simp
qed

lemma convert_batch_Inr_distinct:
  assumes "convert_batch py_str b t = Inr b'"
  shows "distinct (map fst (df_columns b))"
proof -
  from assms have "convert_batch_loop py_str (map fst (df_columns b)) t b = Inr b'"
    by (simp add: convert_batch_def)
  then have "\<forall>l\<in>set (map fst (df_columns b)).
      length (filter (\<lambda>k. k = l) (map fst (df_columns b))) = 1"
    by (rule convert_batch_loop_Inr_unique)
  then show ?thesis by (rule unique_imp_distinct)
qed

text \<open>What a returned batch holds: each column converted, under its label, in place.\<close>

lemma convert_batch_loop_Inr_columns:
  assumes "convert_batch_loop py_str (map fst todo) t df = Inr df'"
    and "df_columns df = done @ todo" and "distinct (map fst (done @ todo))"
  shows "\<exists>todo'. df' = df\<lparr>df_columns := done @ todo'\<rparr>
     \<and> list_all2 (\<lambda>p p'. fst p' = fst p
            \<and> convert_column_data py_str (snd p) t (fst p) = Inr (snd p')) todo todo'"
  using assms
proof (induction todo arbitrary: df "done")
  case Nil
  then show ?case by simp
next
  case (Cons p todo)
  obtain l s where p: "p = (l, s)" by (cases p)
  have sel: "select_series df l = Inr s"
    using Cons.prems(2,3) filter_unique_label[of "done" l s todo]
    by (simp add: select_series_def p)
  from Cons.prems(1) sel obtain c where c: "convert_column_data py_str s t l = Inr c"
    by (auto simp: p split: sum.splits)
  let ?df' = "set_column df l c"
  from Cons.prems(1) sel c have run: "convert_batch_loop py_str (map fst todo) t ?df' = Inr df'"
    by (simp add: p)
  have notin: "l \<notin> fst ` set done"
    using Cons.prems(3) by (auto simp: p)
  have cols': "df_columns ?df' = (done @ [(l, c)]) @ todo"
    using Cons.prems(2) update_middle[OF notin, of c s todo]
    by (simp add: set_column_def p)
  have dist': "distinct (map fst ((done @ [(l, c)]) @ todo))"
    using Cons.prems(3) by (simp add: p)
  from Cons.IH[OF run cols' dist'] obtain rest' where
    r: "df' = ?df'\<lparr>df_columns := (done @ [(l, c)]) @ rest'\<rparr>"
      "list_all2 (\<lambda>p p'. fst p' = fst p
            \<and> convert_column_data py_str (snd p) t (fst p) = Inr (snd p')) todo rest'"
    by blast
  have "df' = df\<lparr>df_columns := done @ ((l, c) # rest')\<rparr>"
    using r(1) by (simp add: set_column_def)
  moreover have "list_all2 (\<lambda>p p'. fst p' = fst p
            \<and> convert_column_data py_str (snd p) t (fst p) = Inr (snd p')) (p # todo) ((l, c) # rest')"
    using r(2) c by (simp add: p)
  ultimately show ?case by blast
qed

lemma ensure_string_array_idem:
  "ensure_string_array py_str vs = Inr vs' \<Longrightarrow> ensure_string_array py_str vs' = Inr vs'"
proof (induction vs arbitrary: vs')
  case Nil
  then show ?case by simp
next
  case (Cons v vs)
  from Cons.prems obtain x r where x: "cell_to_str py_str v = Inr x"
    and r: "ensure_string_array py_str vs = Inr r" and v': "vs' = Str x # r"
    by (auto split: sum.splits)
  from Cons.IH[OF r] show ?case
    by (simp add: v' cell_to_str_def)
qed

lemma ensure_string_array_length:
  "ensure_string_array py_str vs = Inr vs' \<Longrightarrow> length vs' = length vs"
  by (induction vs arbitrary: vs') (auto split: sum.splits)

lemma convert_column_data_idem:
  assumes "convert_column_data py_str s t l = Inr s'"
  shows "convert_column_data py_str s' t l = Inr s'"
proof (cases "s_dtype s = ''object''")
  case True
  with assms obtain vs' where vs': "ensure_string_array py_str (s_values s) = Inr vs'"
    and s': "s' = \<lparr>s_dtype = ''object'', s_values = vs'\<rparr>"
    by (auto simp: convert_column_data_def astype_str_def split: sum.splits)
  from ensure_string_array_idem[OF vs'] show ?thesis
    by (simp add: s' convert_column_data_def astype_str_def)
next
  case False
  with assms have "s' = s"
    by (auto simp: convert_column_data_def to_datetime_def astype_bool_def split: if_splits)
  with assms show ?thesis by simp
qed

lemma convert_column_data_length:
  "convert_column_data py_str s t l = Inr s' \<Longrightarrow> length (s_values s') = length (s_values s)"
  by (auto simp: convert_column_data_def astype_str_def to_datetime_def astype_bool_def
      ensure_string_array_length split: if_splits sum.splits)

text \<open>
  C7: running \<open>convert_batch\<close> on its own result gives that result again; where the
  first run raises, so does the composition, with the same error.
\<close>

theorem convert_batch_idempotent:
  "(case convert_batch py_str b t of Inl e \<Rightarrow> Inl e | Inr b' \<Rightarrow> convert_batch py_str b' t)
     = convert_batch py_str b t"
proof (cases "convert_batch py_str b t")
  case (Inl e)
  then show ?thesis by simp
next
  case (Inr b')
  let ?R = "\<lambda>p p'. fst p' = fst p
            \<and> convert_column_data py_str (snd p) t (fst p) = Inr (snd p')"
  from Inr have d: "distinct (map fst (df_columns b))"
    by (rule convert_batch_Inr_distinct)
  from Inr have run: "convert_batch_loop py_str (map fst (df_columns b)) t b = Inr b'"
    by (simp add: convert_batch_def)
  from convert_batch_loop_Inr_columns[OF run, of "[]"] d obtain cols' where
    b': "b' = b\<lparr>df_columns := cols'\<rparr>" and rel: "list_all2 ?R (df_columns b) cols'"
    by auto
  have keys: "map fst cols' = map fst (df_columns b)"
    using rel by (induction rule: list_all2_induct) auto
  have self: "list_all2 ?R cols' cols'"
    using rel
  proof (induction rule: list_all2_induct)
    case Nil
    then show ?case by simp
  next
    case (Cons p ps p' ps')
    then show ?case by (auto intro: convert_column_data_idem)
  qed
  have cols_b': "df_columns b' = [] @ cols'" by (simp add: b')
  have d': "distinct (map fst ([] @ cols'))" using d keys by simp
  have "convert_batch_loop py_str (map fst cols') t b' = Inr (b'\<lparr>df_columns := [] @ cols'\<rparr>)"
    by (rule convert_batch_loop_returns[OF cols_b' d' self])
  then have "convert_batch py_str b' t = Inr b'"
    by (simp add: convert_batch_def b')
  with Inr show ?thesis by simp
qed

text \<open>Where the conversion returns, the batch keeps its rows and its columns.\<close>

lemma convert_batch_Inr_shape:
  assumes "convert_batch py_str b t = Inr b'"
  shows "row_count b' = row_count b \<and> df_index b' = df_index b
     \<and> map fst (df_columns b') = map fst (df_columns b)
     \<and> list_all2 (\<lambda>p p'. length (s_values (snd p')) = length (s_values (snd p)))
          (df_columns b) (df_columns b')"
proof -
  let ?R = "\<lambda>p p'. fst p' = fst p
            \<and> convert_column_data py_str (snd p) t (fst p) = Inr (snd p')"
  from assms have d: "distinct (map fst (df_columns b))"
    by (rule convert_batch_Inr_distinct)
  from assms have run: "convert_batch_loop py_str (map fst (df_columns b)) t b = Inr b'"
    by (simp add: convert_batch_def)
  from convert_batch_loop_Inr_columns[OF run, of "[]"] d obtain cols' where
    b': "b' = b\<lparr>df_columns := cols'\<rparr>" and rel: "list_all2 ?R (df_columns b) cols'"
    by auto
  have keys: "map fst cols' = map fst (df_columns b)"
    using rel by (induction rule: list_all2_induct) auto
  have lens: "list_all2 (\<lambda>p p'. length (s_values (snd p')) = length (s_values (snd p)))
      (df_columns b) cols'"
    using rel by (rule list_all2_mono) (auto dest: convert_column_data_length)
  show ?thesis
    using keys lens by (simp add: b' row_count_def)
qed

text \<open>
  C6 fails on a binary column. For the one-row batch of a table with a varbinary
  column holding the bytes \<open>FF FE\<close>, \<open>astype(str)\<close> tries to decode the cell and
  \<open>convert_batch\<close> raises \<open>UnicodeDecodeError\<close>; no batch is returned.
\<close>

theorem convert_batch_bytes_column:
  "convert_batch str_int blob_batch ''dbo.Files'' = Inl UnicodeDecodeError"
  by (simp add: convert_batch_def blob_batch_def select_series_def set_column_def
      convert_column_data_def astype_str_def cell_to_str_def bytes_decode_def
      not_datetime_int64)


section \<open>Data migration\<close>

lemma orders_converts:
  "convert_batch str_int orders_batch t =
     Inr (orders_batch\<lparr>df_columns :=
           [(''Id'', \<lparr>s_dtype = ''int64'', s_values = [Obj 1, Obj 2]\<rparr>),
            (''Customer'', \<lparr>s_dtype = ''object'', s_values = [Str ''Ann'', Str ''7'']\<rparr>)]\<rparr>)"
proof -
  have s: "str_int 7 = ''7''" by code_simp
  show ?thesis
    by (simp add: convert_batch_def orders_batch_def select_series_def set_column_def
      convert_column_data_def astype_str_def cell_to_str_def not_datetime_int64 s)
qed

lemma migrate_batches_no_load:
  assumes "dry_run self" and "\<forall>e\<in>set tr. \<not> is_load e"
  shows "\<forall>e\<in>set (snd (migrate_batches self t bs tr)). \<not> is_load e"
  using assms(2)
proof (induction bs arbitrary: tr)
  case Nil
  then show ?case by simp
next
  case (Cons b bs)
  have tr1: "\<forall>e\<in>set (tr @ [ConvertBatch b t]). \<not> is_load e"
    using Cons.prems by simp
  show ?case
  proof (cases "convert_batch (py_str_of self) b t")
    case (Inl e)
    then show ?thesis using tr1 by (simp add: Let_def)
  next
    case (Inr cb)
    then show ?thesis
      using assms(1) Cons.IH[OF tr1] by (simp add: Let_def)
  qed
qed

lemma migrate_tables_no_load:
  assumes "dry_run self" and "\<forall>e\<in>set tr. \<not> is_load e"
  shows "\<forall>e\<in>set (snd (migrate_tables self n ts tr)). \<not> is_load e"
  using assms(2)
proof (induction ts arbitrary: tr)
  case Nil
  then show ?case by simp
next
  case (Cons t ts)
  obtain batches raised where ex: "extract_data self t n = (batches, raised)"
    by (cases "extract_data self t n")
  obtain res tr2 where mb: "migrate_batches self t batches (tr @ [ExtractData t n]) = (res, tr2)"
    by (cases "migrate_batches self t batches (tr @ [ExtractData t n])")
  have tr1: "\<forall>e\<in>set (tr @ [ExtractData t n]). \<not> is_load e"
    using Cons.prems by simp
  have tr2: "\<forall>e\<in>set tr2. \<not> is_load e"
    using migrate_batches_no_load[OF assms(1) tr1, of t batches] mb by simp
  show ?case
    using ex mb tr2 Cons.IH[OF tr2]
    by (simp add: Let_def split: sum.splits option.splits)
qed

lemma migrate_batches_dry_run:
  assumes "dry_run self"
    and "\<forall>b\<in>set bs. \<exists>cb. convert_batch (py_str_of self) b t = Inr cb"
  shows "migrate_batches self t bs tr = (Inr (), tr @ map (\<lambda>b. ConvertBatch b t) bs)"
  using assms(2)
proof (induction bs arbitrary: tr)
  case Nil
  then show ?case by simp
next
  case (Cons b bs)
  from Cons.prems obtain cb where cb: "convert_batch (py_str_of self) b t = Inr cb"
    by auto
  have rest: "\<forall>b\<in>set bs. \<exists>cb. convert_batch (py_str_of self) b t = Inr cb"
    using Cons.prems by simp
  show ?case
    using assms(1) cb Cons.IH[OF rest, of "tr @ [ConvertBatch b t]"]
    by (simp add: Let_def)
qed

lemma migrate_tables_dry_run:
  assumes "dry_run self"
    and "\<forall>t\<in>set ts. snd (extract_data self t n) = None
           \<and> (\<forall>b\<in>set (fst (extract_data self t n)).
                 \<exists>cb. convert_batch (py_str_of self) b t = Inr cb)"
  shows "migrate_tables self n ts tr =
     (Inr (), tr @ concat (map (\<lambda>t. ExtractData t n
                 # map (\<lambda>b. ConvertBatch b t) (fst (extract_data self t n))) ts))"
  using assms(2)
proof (induction ts arbitrary: tr)
  case Nil
  then show ?case by simp
next
  case (Cons t ts)
  obtain batches raised where ex: "extract_data self t n = (batches, raised)"
    by (cases "extract_data self t n")
  from Cons.prems ex have none: "raised = None"
    and d: "\<forall>b\<in>set batches. \<exists>cb. convert_batch (py_str_of self) b t = Inr cb"
    by auto
  have rest: "\<forall>t\<in>set ts. snd (extract_data self t n) = None
           \<and> (\<forall>b\<in>set (fst (extract_data self t n)).
                 \<exists>cb. convert_batch (py_str_of self) b t = Inr cb)"
    using Cons.prems by simp
  show ?case
    using ex none migrate_batches_dry_run[OF assms(1) d, of "tr @ [ExtractData t n]"]
      Cons.IH[OF rest, of "(tr @ [ExtractData t n]) @ map (\<lambda>b. ConvertBatch b t) batches"]
    by (simp add: Let_def)
qed

text \<open>
  C8, amended: in a dry run no call of \<open>load_data\<close> is in the trace of \<open>migrate_data\<close>,
  however the run ends; and when no extraction raises and \<open>convert_batch\<close> returns for
  every extracted batch, the run returns normally and its trace is, table by table in
  the order of the metadata, the \<open>extract_data\<close> call followed by one \<open>convert_batch\<close>
  call for each batch the extractor yields.
\<close>

theorem migrate_data_dry_run:
  assumes "dry_run self"
  shows "(\<forall>e\<in>set (snd (migrate_data self md)). \<not> is_load e)
     \<and> ((\<forall>t\<in>set (map fst (md_tables md)).
            snd (extract_data self t (batch_size_of self)) = None
            \<and> (\<forall>b\<in>set (fst (extract_data self t (batch_size_of self))).
                  \<exists>cb. convert_batch (py_str_of self) b t = Inr cb))
         \<longrightarrow> migrate_data self md
               = (Inr (), concat (map (dry_run_calls self) (map fst (md_tables md)))))"
proof (intro conjI impI)
  show "\<forall>e\<in>set (snd (migrate_data self md)). \<not> is_load e"
    unfolding migrate_data_def
    by (rule migrate_tables_no_load[OF assms]) simp
next
  assume h: "\<forall>t\<in>set (map fst (md_tables md)).
            snd (extract_data self t (batch_size_of self)) = None
            \<and> (\<forall>b\<in>set (fst (extract_data self t (batch_size_of self))).
                  \<exists>cb. convert_batch (py_str_of self) b t = Inr cb)"
  have "dry_run_calls self = (\<lambda>t. ExtractData t (batch_size_of self)
                 # map (\<lambda>b. ConvertBatch b t) (fst (extract_data self t (batch_size_of self))))"
    by (rule ext) (simp add: dry_run_calls_def)
  then show "migrate_data self md
               = (Inr (), concat (map (dry_run_calls self) (map fst (md_tables md))))"
    using migrate_tables_dry_run[OF assms h, of "[]"]
    by (simp add: migrate_data_def)
qed

theorem migrate_data_dry_run_witness:
  "dry_run preview_run
   \<and> migrate_data preview_run orders_metadata
       = (Inr (), [ExtractData ''dbo.Orders'' 10000, ConvertBatch orders_batch ''dbo.Orders''])"
proof -
  have h: "dry_run preview_run"
    by (simp add: preview_run_def)
  have n: "batch_size_of preview_run = 10000"
    by (simp add: batch_size_of_def preview_run_def)
  have e: "extract_data preview_run = (\<lambda>t n. ([orders_batch], None))"
    and p: "py_str_of preview_run = str_int"
    by (simp_all add: preview_run_def)
  have g: "\<forall>t\<in>set (map fst (md_tables orders_metadata)).
            snd (extract_data preview_run t (batch_size_of preview_run)) = None
            \<and> (\<forall>b\<in>set (fst (extract_data preview_run t (batch_size_of preview_run))).
                  \<exists>cb. convert_batch (py_str_of preview_run) b t = Inr cb)"
    by (simp add: e p orders_converts)
  from migrate_data_dry_run[OF h, of orders_metadata] g
  have "migrate_data preview_run orders_metadata
      = (Inr (), concat (map (dry_run_calls preview_run) (map fst (md_tables orders_metadata))))"
    by blast
  then show ?thesis
    using h by (simp add: dry_run_calls_def n e orders_metadata_def)
qed

text \<open>
  C8 as stated fails when something raises: a dry run over two tables stops at the
  first table, when the conversion of its batch raises or when its extraction raises,
  and \<open>extract_data\<close> is never called for the second table.
\<close>

theorem migrate_data_dry_run_aborts:
  "dry_run files_run
   \<and> migrate_data files_run files_metadata
       = (Inl UnicodeDecodeError,
          [ExtractData ''dbo.Files'' 10000, ConvertBatch blob_batch ''dbo.Files''])
   \<and> ExtractData ''dbo.Orders'' 10000 \<notin> set (snd (migrate_data files_run files_metadata))
   \<and> dry_run offline_run
   \<and> migrate_data offline_run files_metadata
       = (Inl (ExtractionError ''connection lost''), [ExtractData ''dbo.Files'' 10000])"
proof -
  have b: "convert_batch str_int blob_batch ''dbo.Files'' = Inl UnicodeDecodeError"
    by (simp add: convert_batch_def blob_batch_def select_series_def set_column_def
        convert_column_data_def astype_str_def cell_to_str_def bytes_decode_def
        not_datetime_int64)
  have 1: "migrate_data files_run files_metadata
       = (Inl UnicodeDecodeError,
          [ExtractData ''dbo.Files'' 10000, ConvertBatch blob_batch ''dbo.Files''])"
    by (simp add: migrate_data_def batch_size_of_def files_run_def files_metadata_def Let_def b)
  have 2: "migrate_data offline_run files_metadata
       = (Inl (ExtractionError ''connection lost''), [ExtractData ''dbo.Files'' 10000])"
    by (simp add: migrate_data_def batch_size_of_def offline_run_def files_metadata_def Let_def)
  show ?thesis
    unfolding 1 2 by (simp add: files_run_def offline_run_def)
qed

text \<open>The same run with \<open>dry_run\<close> off hands the converted batch to the loader.\<close>

lemma migrate_data_loads_when_not_dry_run:
  "snd (migrate_data (preview_run\<lparr>dry_run := False\<rparr>) orders_metadata) =
     [ExtractData ''dbo.Orders'' 10000, ConvertBatch orders_batch ''dbo.Orders'',
      LoadData ''dbo.Orders''
        (orders_batch\<lparr>df_columns :=
           [(''Id'', \<lparr>s_dtype = ''int64'', s_values = [Obj 1, Obj 2]\<rparr>),
            (''Customer'', \<lparr>s_dtype = ''object'', s_values = [Str ''Ann'', Str ''7'']\<rparr>)]\<rparr>)]"
  by (simp add: migrate_data_def batch_size_of_def preview_run_def orders_metadata_def
      Let_def orders_converts)

end
